theory Spec2Isabelle
  imports Complex_Main "HOL-Library.Multiset" "HOL-Library.AList" "HOL-Library.Sublist"
begin

section \<open>Numeric values\<close>

text \<open>
  The notebook computes with numpy float64 values. The model keeps the special values of
  IEEE arithmetic that the code can produce (NaN and the two infinities). The definitions
  of the first sections compute on finite values exactly, in the reals, with no rounding
  and no overflow; the section on float64 arithmetic gives the estimator and subset
  refutation with the rounding of every operation, for the claims that rounding decides. Table
  cells are finite (the notebook's generator and \<^verbatim>\<open>np.random.randn\<close> only
  produce finite numbers), so a column is a list of reals; only results of \<^verbatim>\<open>np.mean\<close>
  and of divisions can be special values. The sign of a zero is not modelled: a zero
  divisor counts as a positive zero, so a finite nonzero value divided by zero is the
  infinity of the sign of the numerator.
\<close>

datatype fval = Fin real | PInf | MInf | NaN

fun fneg :: "fval \<Rightarrow> fval" where
  "fneg (Fin a) = Fin (- a)"
| "fneg PInf = MInf"
| "fneg MInf = PInf"
| "fneg NaN = NaN"

fun fadd :: "fval \<Rightarrow> fval \<Rightarrow> fval" where
  "fadd (Fin a) (Fin b) = Fin (a + b)"
| "fadd (Fin a) PInf = PInf"
| "fadd (Fin a) MInf = MInf"
| "fadd (Fin a) NaN = NaN"
| "fadd PInf (Fin b) = PInf"
| "fadd PInf PInf = PInf"
| "fadd PInf MInf = NaN"
| "fadd PInf NaN = NaN"
| "fadd MInf (Fin b) = MInf"
| "fadd MInf PInf = NaN"
| "fadd MInf MInf = MInf"
| "fadd MInf NaN = NaN"
| "fadd NaN b = NaN"

definition fsub :: "fval \<Rightarrow> fval \<Rightarrow> fval" where
  "fsub a b = fadd a (fneg b)"

text \<open>
  Division of numpy scalars: a zero divisor raises nothing; it yields an infinity, or NaN
  for \<open>0 / 0\<close>.
\<close>

fun fdiv :: "fval \<Rightarrow> fval \<Rightarrow> fval" where
  "fdiv (Fin a) (Fin b) =
     (if b \<noteq> 0 then Fin (a / b)
      else if 0 < a then PInf else if a < 0 then MInf else NaN)"
| "fdiv (Fin a) PInf = Fin 0"
| "fdiv (Fin a) MInf = Fin 0"
| "fdiv (Fin a) NaN = NaN"
| "fdiv PInf (Fin b) = (if b < 0 then MInf else PInf)"
| "fdiv MInf (Fin b) = (if b < 0 then PInf else MInf)"
| "fdiv PInf PInf = NaN"
| "fdiv PInf MInf = NaN"
| "fdiv PInf NaN = NaN"
| "fdiv MInf PInf = NaN"
| "fdiv MInf MInf = NaN"
| "fdiv MInf NaN = NaN"
| "fdiv NaN b = NaN"


section \<open>Errors and the table\<close>

text \<open>
  The exceptions the modelled code can raise: a missing column (\<^verbatim>\<open>df["Z0"]\<close>), a
  sampling fraction or a column length that pandas rejects, a row position outside the
  table, the division \<^verbatim>\<open>0 / 0\<close> of Python integers, \<^verbatim>\<open>round\<close> of an infinity, and a
  reference to no table.
\<close>

datatype error =
  KeyError string | ValueError | IndexError | ZeroDivisionError | OverflowError | NameError

type_synonym column = "real list"

text \<open>
  A pandas DataFrame with float64 columns: its number of rows (\<^verbatim>\<open>df.shape[0]\<close>) and
  its columns in order, each with its name. In a DataFrame every column has as many cells
  as the table has rows, and the names are distinct.
\<close>

record dataframe =
  nrows :: nat
  columns :: "(string \<times> column) list"

definition wf_df :: "dataframe \<Rightarrow> bool" where
  "wf_df df \<longleftrightarrow>
     distinct (map fst (columns df)) \<and>
     list_all (\<lambda>p. length (snd p) = nrows df) (columns df)"

text \<open>\<^verbatim>\<open>df[name]\<close>\<close>

definition getitem :: "dataframe \<Rightarrow> string \<Rightarrow> error + column" where
  "getitem df name =
     (case map_of (columns df) name of
        None \<Rightarrow> Inl (KeyError name)
      | Some c \<Rightarrow> Inr c)"

text \<open>
  The table that \<^verbatim>\<open>df.assign(name=c)\<close> returns: a column of that name is replaced
  where it stands, a new name is appended as the last column; an array of another length
  than the table is refused.
\<close>

definition assign :: "dataframe \<Rightarrow> string \<Rightarrow> column \<Rightarrow> error + dataframe" where
  "assign df name c =
     (if length c \<noteq> nrows df then Inl ValueError
      else Inr (df\<lparr>columns := AList.update name c (columns df)\<rparr>))"

section \<open>The estimator\<close>

text \<open>\<^verbatim>\<open>len(np.unique(instrument))\<close>\<close>

definition num_unique :: "column \<Rightarrow> nat" where
  "num_unique instrument = length (remdups instrument)"

text \<open>\<^verbatim>\<open>col[instrument == v]\<close>: the cells of \<open>col\<close> in the rows where the instrument is \<open>v\<close>.\<close>

definition mask_select :: "column \<Rightarrow> column \<Rightarrow> real \<Rightarrow> column" where
  "mask_select col instrument v =
     map fst (filter (\<lambda>p. snd p = v) (zip col instrument))"

text \<open>\<^verbatim>\<open>np.mean\<close> of a selection: NaN when nothing is selected.\<close>

definition np_mean :: "column \<Rightarrow> fval" where
  "np_mean xs = (if xs = [] then NaN else Fin (sum_list xs / real (length xs)))"

definition np_dot :: "column \<Rightarrow> column \<Rightarrow> real" where
  "np_dot xs ys = sum_list (map (\<lambda>p. fst p * snd p) (zip xs ys))"

text \<open>\<^verbatim>\<open>CausalEstimate = namedtuple('CausalEstimate', ['value'])\<close>\<close>

datatype CausalEstimate = CausalEstimate (estimate_value: fval)

definition treatment_default :: "string option \<Rightarrow> string" where
  "treatment_default treatment_name =
     (case treatment_name of None \<Rightarrow> ''v'' | Some t \<Rightarrow> t)"

text \<open>
  Each branch reads the outcome column before the treatment column, so a table that lacks
  both raises the \<open>KeyError\<close> of \<open>y\<close>.
\<close>

definition instrumental_variables_estimator ::
  "dataframe \<Rightarrow> string option \<Rightarrow> error + CausalEstimate" where
  "instrumental_variables_estimator df treatment_name =
     (case getitem df ''Z0'' of
        Inl e \<Rightarrow> Inl e
      | Inr instrument \<Rightarrow>
         (let num_unique_values = num_unique instrument;
              instrument_is_binary = (num_unique_values \<le> 2)
          in (if instrument_is_binary then
                (case getitem df ''y'' of
                   Inl e \<Rightarrow> Inl e
                 | Inr y \<Rightarrow>
                     (case getitem df (treatment_default treatment_name) of
                        Inl e \<Rightarrow> Inl e
                      | Inr x \<Rightarrow>
                         (let y1_z = np_mean (mask_select y instrument 1);
                              y0_z = np_mean (mask_select y instrument 0);
                              x1_z = np_mean (mask_select x instrument 1);
                              x0_z = np_mean (mask_select x instrument 0);
                              num = fsub y1_z y0_z;
                              deno = fsub x1_z x0_z;
                              iv_est = fdiv num deno
                          in Inr (CausalEstimate iv_est))))
              else
                (case getitem df ''y'' of
                   Inl e \<Rightarrow> Inl e
                 | Inr y \<Rightarrow>
                     (case getitem df (treatment_default treatment_name) of
                        Inl e \<Rightarrow> Inl e
                      | Inr x \<Rightarrow>
                         (let num_yz = np_dot y instrument;
                              deno_xz = np_dot x instrument;
                              iv_est = fdiv (Fin num_yz) (Fin deno_xz)
                          in Inr (CausalEstimate iv_est)))))))"

section \<open>The random source and the store of tables\<close>

text \<open>
  The notebook draws from numpy's global generator, which is not part of the repository.
  The model takes it as a parameter: a generator state \<open>'g\<close> and the two draws the code
  uses. \<open>randn g n\<close> is \<^verbatim>\<open>np.random.randn(n)\<close>; \<open>choice g n k\<close> is the draw behind
  \<^verbatim>\<open>sample\<close>, \<^verbatim>\<open>choice(n, size=k, replace=False)\<close>. Each returns its value and the
  next generator state.
\<close>

record 'g random_source =
  randn :: "'g \<Rightarrow> nat \<Rightarrow> column \<times> 'g"
  choice :: "'g \<Rightarrow> nat \<Rightarrow> nat \<Rightarrow> nat list \<times> 'g"

text \<open>
  What numpy documents of the two draws: \<open>randn\<close> returns as many cells as asked for,
  \<open>choice\<close> returns \<open>k\<close> distinct positions below \<open>n\<close>.
\<close>

definition valid_source :: "'g random_source \<Rightarrow> bool" where
  "valid_source src \<longleftrightarrow>
     (\<forall>g n. length (fst (randn src g n)) = n) \<and>
     (\<forall>g n k. k \<le> n \<longrightarrow>
        length (fst (choice src g n k)) = k \<and>
        distinct (fst (choice src g n k)) \<and>
        list_all (\<lambda>i. i < n) (fst (choice src g n k)))"

text \<open>
  The state of the program: the generator and the tables that exist, each known by its
  position in \<open>frames\<close>. A variable of the notebook that holds a DataFrame is such a
  position. A new table is put at the end; no operation of the modelled code writes to a
  table that exists.
\<close>

record 'g world =
  rng :: 'g
  frames :: "dataframe list"

definition deref :: "'g world \<Rightarrow> nat \<Rightarrow> error + dataframe" where
  "deref w r = (if r < length (frames w) then Inr (frames w ! r) else Inl NameError)"

definition new_frame :: "'g world \<Rightarrow> dataframe \<Rightarrow> nat \<times> 'g world" where
  "new_frame w d = (length (frames w), w\<lparr>frames := frames w @ [d]\<rparr>)"

text \<open>\<^verbatim>\<open>df.assign(name=c)\<close> on the store: the result is a new table.\<close>

definition df_assign ::
  "'g world \<Rightarrow> nat \<Rightarrow> string \<Rightarrow> column \<Rightarrow> (error + nat) \<times> 'g world" where
  "df_assign w df name c =
     (case deref w df of
        Inl e \<Rightarrow> (Inl e, w)
      | Inr d \<Rightarrow>
          (case assign d name c of
             Inl e \<Rightarrow> (Inl e, w)
           | Inr d' \<Rightarrow> (let (r, w') = new_frame w d' in (Inr r, w'))))"

text \<open>Python's \<^verbatim>\<open>round\<close>: to the nearest integer, a tie to the even one.\<close>

definition py_round :: "real \<Rightarrow> int" where
  "py_round x =
     (let f = \<lfloor>x\<rfloor>; d = x - of_int f
      in if d < 1 / 2 then f
         else if 1 / 2 < d then f + 1
         else if even f then f else f + 1)"

text \<open>
  The row positions that \<^verbatim>\<open>sample(frac=frac)\<close> draws, without replacement: pandas
  refuses a negative fraction and a fraction above 1, and takes
  \<^verbatim>\<open>round(frac * axis_length)\<close> positions.
\<close>

definition sample_locs ::
  "'g random_source \<Rightarrow> 'g \<Rightarrow> nat \<Rightarrow> real \<Rightarrow> (error + nat list) \<times> 'g" where
  "sample_locs src g axis_length fraction =
     (if fraction < 0 \<or> 1 < fraction then (Inl ValueError, g)
      else (let n = nat (py_round (fraction * real axis_length));
                (locs, g') = choice src g axis_length n
            in (Inr locs, g')))"

definition take_col :: "column \<Rightarrow> nat list \<Rightarrow> error + column" where
  "take_col c locs =
     (if list_all (\<lambda>i. i < length c) locs then Inr (map ((!) c) locs)
      else Inl IndexError)"

text \<open>\<^verbatim>\<open>series.sample(frac=frac).values\<close>\<close>

definition series_sample_values ::
  "'g random_source \<Rightarrow> 'g \<Rightarrow> column \<Rightarrow> real \<Rightarrow> (error + column) \<times> 'g" where
  "series_sample_values src g c fraction =
     (let (res, g') = sample_locs src g (length c) fraction
      in (case res of
            Inl e \<Rightarrow> (Inl e, g')
          | Inr locs \<Rightarrow> (take_col c locs, g')))"

definition take_rows :: "dataframe \<Rightarrow> nat list \<Rightarrow> error + dataframe" where
  "take_rows d locs =
     (if list_all (\<lambda>i. i < nrows d) locs
      then Inr \<lparr>nrows = length locs,
                columns = map (\<lambda>p. (fst p, map ((!) (snd p)) locs)) (columns d)\<rparr>
      else Inl IndexError)"

text \<open>\<^verbatim>\<open>df.sample(frac=frac)\<close> on the store: the result is a new table.\<close>

definition df_sample ::
  "'g random_source \<Rightarrow> 'g world \<Rightarrow> nat \<Rightarrow> real \<Rightarrow> (error + nat) \<times> 'g world" where
  "df_sample src w df fraction =
     (case deref w df of
        Inl e \<Rightarrow> (Inl e, w)
      | Inr d \<Rightarrow>
         (let (res, g') = sample_locs src (rng w) (nrows d) fraction;
              w1 = w\<lparr>rng := g'\<rparr>
          in (case res of
                Inl e \<Rightarrow> (Inl e, w1)
              | Inr locs \<Rightarrow>
                  (case take_rows d locs of
                     Inl e \<Rightarrow> (Inl e, w1)
                   | Inr d' \<Rightarrow> (let (r, w2) = new_frame w1 d' in (Inr r, w2))))))"

section \<open>The refuters\<close>

text \<open>The estimator called on a variable: it reads the table and writes nothing.\<close>

definition estimator_at ::
  "'g world \<Rightarrow> nat \<Rightarrow> string option \<Rightarrow> error + CausalEstimate" where
  "estimator_at w df treatment_name =
     (case deref w df of
        Inl e \<Rightarrow> Inl e
      | Inr d \<Rightarrow> instrumental_variables_estimator d treatment_name)"

definition refute_estimate_random ::
  "'g random_source \<Rightarrow> 'g world \<Rightarrow> nat \<Rightarrow> CausalEstimate \<Rightarrow> (error + fval) \<times> 'g world" where
  "refute_estimate_random src w df causal_estimate =
     (case deref w df of
        Inl e \<Rightarrow> (Inl e, w)
      | Inr d \<Rightarrow>
         (let num_rows = nrows d;
              (noise, g') = randn src (rng w) num_rows;
              (res, w') = df_assign (w\<lparr>rng := g'\<rparr>) df ''w_random'' noise
          in (case res of
                Inl e \<Rightarrow> (Inl e, w')
              | Inr new_data \<Rightarrow>
                  (case estimator_at w' new_data None of
                     Inl e \<Rightarrow> (Inl e, w')
                   | Inr new_effect \<Rightarrow> (Inr (estimate_value new_effect), w')))))"

text \<open>The placebo column of one simulation.\<close>

definition new_treatment ::
  "'g random_source \<Rightarrow> 'g world \<Rightarrow> nat \<Rightarrow> string \<Rightarrow> nat \<Rightarrow> (error + column) \<times> 'g world" where
  "new_treatment src w df placebo_type num_rows =
     (if placebo_type = ''permute'' then
        (case deref w df of
           Inl e \<Rightarrow> (Inl e, w)
         | Inr d \<Rightarrow>
             (case getitem d ''v'' of
                Inl e \<Rightarrow> (Inl e, w)
              | Inr v \<Rightarrow>
                  (let (res, g') = series_sample_values src (rng w) v 1
                   in (res, w\<lparr>rng := g'\<rparr>))))
      else
        (let (noise, g') = randn src (rng w) num_rows
         in (Inr noise, w\<lparr>rng := g'\<rparr>)))"

text \<open>
  The loop \<^verbatim>\<open>for i in range(sims)\<close>, with the number of simulations left and the
  running sum \<open>refute\<close>.
\<close>

fun placebo_loop ::
  "'g random_source \<Rightarrow> nat \<Rightarrow> string \<Rightarrow> nat \<Rightarrow> nat \<Rightarrow> fval \<Rightarrow> 'g world
     \<Rightarrow> (error + fval) \<times> 'g world" where
  "placebo_loop src df placebo_type num_rows 0 refute w = (Inr refute, w)"
| "placebo_loop src df placebo_type num_rows (Suc k) refute w =
     (let (res, w1) = new_treatment src w df placebo_type num_rows
      in (case res of
            Inl e \<Rightarrow> (Inl e, w1)
          | Inr nt \<Rightarrow>
             (let (res2, w2) = df_assign w1 df ''placebo'' nt
              in (case res2 of
                    Inl e \<Rightarrow> (Inl e, w2)
                  | Inr new_data \<Rightarrow>
                      (case estimator_at w2 new_data (Some ''placebo'') of
                         Inl e \<Rightarrow> (Inl e, w2)
                       | Inr new_estimate \<Rightarrow>
                           placebo_loop src df placebo_type num_rows k
                             (fadd refute (estimate_value new_estimate)) w2)))))"

text \<open>
  \<open>refute\<close> starts as the Python integer 0. With \<open>sims = 0\<close> the loop does not run and
  \<^verbatim>\<open>refute/sims\<close> is the integer division \<open>0 / 0\<close>, which raises; with every other
  \<open>sims\<close> the division is a float division.
\<close>

definition refute_estimate_placebo ::
  "'g random_source \<Rightarrow> 'g world \<Rightarrow> nat \<Rightarrow> CausalEstimate \<Rightarrow> string option \<Rightarrow> int option
     \<Rightarrow> (error + fval) \<times> 'g world" where
  "refute_estimate_placebo src w df estimate placebo_type sims =
     (let placebo_type' = (case placebo_type of None \<Rightarrow> ''permte'' | Some t \<Rightarrow> t);
          sims' = (case sims of None \<Rightarrow> 100 | Some n \<Rightarrow> n)
      in (case deref w df of
            Inl e \<Rightarrow> (Inl e, w)
          | Inr d \<Rightarrow>
             (let num_rows = nrows d;
                  (res, w') = placebo_loop src df placebo_type' num_rows (nat sims') (Fin 0) w
              in (case res of
                    Inl e \<Rightarrow> (Inl e, w')
                  | Inr refute \<Rightarrow>
                      if sims' = 0 then (Inl ZeroDivisionError, w')
                      else (Inr (fdiv refute (Fin (of_int sims'))), w')))))"

definition refute_estimate_subset ::
  "'g random_source \<Rightarrow> 'g world \<Rightarrow> nat \<Rightarrow> CausalEstimate \<Rightarrow> real option
     \<Rightarrow> (error + fval) \<times> 'g world" where
  "refute_estimate_subset src w df causal_estimate subset_fraction =
     (let fraction = (case subset_fraction of None \<Rightarrow> 8 / 10 | Some f \<Rightarrow> f);
          (res, w') = df_sample src w df fraction
      in (case res of
            Inl e \<Rightarrow> (Inl e, w')
          | Inr new_data \<Rightarrow>
              (case estimator_at w' new_data None of
                 Inl e \<Rightarrow> (Inl e, w')
               | Inr new_effect \<Rightarrow> (Inr (estimate_value new_effect), w'))))"

section \<open>The estimator and subset refutation over float64 arithmetic\<close>


fun fsub_r :: "(real \<Rightarrow> fval) \<Rightarrow> fval \<Rightarrow> fval \<Rightarrow> fval" where
  "fsub_r rnd (Fin a) (Fin b) = rnd (a - b)"
| "fsub_r rnd a b = fsub a b"

fun fdiv_r :: "(real \<Rightarrow> fval) \<Rightarrow> fval \<Rightarrow> fval \<Rightarrow> fval" where
  "fdiv_r rnd (Fin a) (Fin b) = (if b \<noteq> 0 then rnd (a / b) else fdiv (Fin a) (Fin b))"
| "fdiv_r rnd a b = fdiv a b"

record float_arith =
  fl_round :: "real \<Rightarrow> fval"
  fl_mean :: "column \<Rightarrow> fval"
  fl_dot :: "column \<Rightarrow> column \<Rightarrow> fval"

definition np_mean_fl :: "float_arith \<Rightarrow> column \<Rightarrow> fval" where
  "np_mean_fl ar xs = (if xs = [] then NaN else fl_mean ar xs)"

definition instrumental_variables_estimator_fl ::
  "float_arith \<Rightarrow> dataframe \<Rightarrow> string option \<Rightarrow> error + CausalEstimate" where
  "instrumental_variables_estimator_fl ar df treatment_name =
     (case getitem df ''Z0'' of
        Inl e \<Rightarrow> Inl e
      | Inr instrument \<Rightarrow>
         (let num_unique_values = num_unique instrument;
              instrument_is_binary = (num_unique_values \<le> 2)
          in (if instrument_is_binary then
                (case getitem df ''y'' of
                   Inl e \<Rightarrow> Inl e
                 | Inr y \<Rightarrow>
                     (case getitem df (treatment_default treatment_name) of
                        Inl e \<Rightarrow> Inl e
                      | Inr x \<Rightarrow>
                         (let y1_z = np_mean_fl ar (mask_select y instrument 1);
                              y0_z = np_mean_fl ar (mask_select y instrument 0);
                              x1_z = np_mean_fl ar (mask_select x instrument 1);
                              x0_z = np_mean_fl ar (mask_select x instrument 0);
                              num = fsub_r (fl_round ar) y1_z y0_z;
                              deno = fsub_r (fl_round ar) x1_z x0_z;
                              iv_est = fdiv_r (fl_round ar) num deno
                          in Inr (CausalEstimate iv_est))))
              else
                (case getitem df ''y'' of
                   Inl e \<Rightarrow> Inl e
                 | Inr y \<Rightarrow>
                     (case getitem df (treatment_default treatment_name) of
                        Inl e \<Rightarrow> Inl e
                      | Inr x \<Rightarrow>
                         (let num_yz = fl_dot ar y instrument;
                              deno_xz = fl_dot ar x instrument;
                              iv_est = fdiv_r (fl_round ar) num_yz deno_xz
                          in Inr (CausalEstimate iv_est)))))))"

text \<open>
  \<^verbatim>\<open>df.sample(frac=frac)\<close>: pandas takes \<^verbatim>\<open>round(frac * axis_length)\<close> rows, the
  product being a float64 product; \<^verbatim>\<open>round\<close> raises on an infinity and on NaN, and
  numpy refuses to draw more rows than the table has. The default fraction is the float64
  value of \<^verbatim>\<open>0.8\<close>.
\<close>

definition default_fraction :: real where
  "default_fraction = 3602879701896397 / 4503599627370496"

definition sample_locs_fl ::
  "float_arith \<Rightarrow> 'g random_source \<Rightarrow> 'g \<Rightarrow> nat \<Rightarrow> real \<Rightarrow> (error + nat list) \<times> 'g" where
  "sample_locs_fl ar src g axis_length fraction =
     (if fraction < 0 \<or> 1 < fraction then (Inl ValueError, g)
      else (case fl_round ar (fraction * real axis_length) of
              Fin p \<Rightarrow>
                (let n = nat (py_round p)
                 in if axis_length < n then (Inl ValueError, g)
                    else (let (locs, g') = choice src g axis_length n
                          in (Inr locs, g')))
            | PInf \<Rightarrow> (Inl OverflowError, g)
            | MInf \<Rightarrow> (Inl OverflowError, g)
            | NaN \<Rightarrow> (Inl ValueError, g)))"

definition df_sample_fl ::
  "float_arith \<Rightarrow> 'g random_source \<Rightarrow> 'g world \<Rightarrow> nat \<Rightarrow> real
     \<Rightarrow> (error + nat) \<times> 'g world" where
  "df_sample_fl ar src w df fraction =
     (case deref w df of
        Inl e \<Rightarrow> (Inl e, w)
      | Inr d \<Rightarrow>
         (let (res, g') = sample_locs_fl ar src (rng w) (nrows d) fraction;
              w1 = w\<lparr>rng := g'\<rparr>
          in (case res of
                Inl e \<Rightarrow> (Inl e, w1)
              | Inr locs \<Rightarrow>
                  (case take_rows d locs of
                     Inl e \<Rightarrow> (Inl e, w1)
                   | Inr d' \<Rightarrow> (let (r, w2) = new_frame w1 d' in (Inr r, w2))))))"

definition estimator_at_fl ::
  "float_arith \<Rightarrow> 'g world \<Rightarrow> nat \<Rightarrow> string option \<Rightarrow> error + CausalEstimate" where
  "estimator_at_fl ar w df treatment_name =
     (case deref w df of
        Inl e \<Rightarrow> Inl e
      | Inr d \<Rightarrow> instrumental_variables_estimator_fl ar d treatment_name)"

definition refute_estimate_subset_fl ::
  "float_arith \<Rightarrow> 'g random_source \<Rightarrow> 'g world \<Rightarrow> nat \<Rightarrow> CausalEstimate \<Rightarrow> real option
     \<Rightarrow> (error + fval) \<times> 'g world" where
  "refute_estimate_subset_fl ar src w df causal_estimate subset_fraction =
     (let fraction = (case subset_fraction of None \<Rightarrow> default_fraction | Some f \<Rightarrow> f);
          (res, w') = df_sample_fl ar src w df fraction
      in (case res of
            Inl e \<Rightarrow> (Inl e, w')
          | Inr new_data \<Rightarrow>
              (case estimator_at_fl ar w' new_data None of
                 Inl e \<Rightarrow> (Inl e, w')
               | Inr new_effect \<Rightarrow> (Inr (estimate_value new_effect), w'))))"

text \<open>Exact arithmetic: nothing rounds. It gives back the definitions above.\<close>

definition exact_arith :: float_arith where
  "exact_arith =
     \<lparr>fl_round = Fin,
      fl_mean = (\<lambda>xs. Fin (sum_list xs / real (length xs))),
      fl_dot = (\<lambda>xs ys. Fin (np_dot xs ys))\<rparr>"











section \<open>The specification's formulations\<close>

text \<open>
  The estimator as the specification words it, over the rows of the table: the mean of a
  column over the rows where the instrument has a given value, the Wald ratio of the
  differences of such means, and the Pearl ratio of the two dot products.
\<close>

definition spec_group_mean :: "column \<Rightarrow> column \<Rightarrow> real \<Rightarrow> fval" where
  "spec_group_mean col z v =
     (let rows = filter (\<lambda>i. z ! i = v) [0..<length z]
      in if rows = [] then NaN
         else Fin ((\<Sum>i\<leftarrow>rows. col ! i) / real (length rows)))"

definition spec_wald :: "column \<Rightarrow> column \<Rightarrow> column \<Rightarrow> fval" where
  "spec_wald y x z =
     fdiv (fsub (spec_group_mean y z 1) (spec_group_mean y z 0))
          (fsub (spec_group_mean x z 1) (spec_group_mean x z 0))"

definition spec_pearl :: "column \<Rightarrow> column \<Rightarrow> column \<Rightarrow> fval" where
  "spec_pearl y x z =
     fdiv (Fin (\<Sum>i\<leftarrow>[0..<length z]. y ! i * z ! i))
          (Fin (\<Sum>i\<leftarrow>[0..<length z]. x ! i * z ! i))"

definition spec_estimate :: "column \<Rightarrow> column \<Rightarrow> column \<Rightarrow> fval" where
  "spec_estimate y x z = (if card (set z) \<le> 2 then spec_wald y x z else spec_pearl y x z)"

text \<open>
  The refuters as the specification words them. The mean of a list of estimates is
  their sum divided by their number.
\<close>

fun fsum :: "fval list \<Rightarrow> fval" where
  "fsum [] = Fin 0"
| "fsum (e # es) = fadd e (fsum es)"

definition spec_mean :: "fval list \<Rightarrow> fval" where
  "spec_mean es = fdiv (fsum es) (Fin (real (length es)))"

text \<open>
  The placebo column of one simulation: in the mode \<open>permute\<close> the cells of the
  treatment column \<open>v\<close> at the positions of a draw without replacement of all its
  rows, in any other mode a draw of noise. \<open>spec_placebo_columns\<close> lists the columns
  of \<open>k\<close> simulations, each drawn from the generator state the previous one left;
  \<open>spec_noise_columns\<close> lists \<open>k\<close> draws of noise from a noise generator alone.
\<close>

definition spec_placebo_draw ::
  "'g random_source \<Rightarrow> string \<Rightarrow> column \<Rightarrow> nat \<Rightarrow> 'g \<Rightarrow> column \<times> 'g" where
  "spec_placebo_draw src placebo_type v num_rows g =
     (if placebo_type = ''permute''
      then (let (locs, g') = choice src g (length v) (length v)
            in (map ((!) v) locs, g'))
      else randn src g num_rows)"

fun spec_placebo_columns ::
  "'g random_source \<Rightarrow> string \<Rightarrow> column \<Rightarrow> nat \<Rightarrow> nat \<Rightarrow> 'g \<Rightarrow> column list" where
  "spec_placebo_columns src placebo_type v num_rows 0 g = []"
| "spec_placebo_columns src placebo_type v num_rows (Suc k) g =
     (let (c, g') = spec_placebo_draw src placebo_type v num_rows g
      in c # spec_placebo_columns src placebo_type v num_rows k g')"

fun spec_noise_columns ::
  "('g \<Rightarrow> nat \<Rightarrow> column \<times> 'g) \<Rightarrow> nat \<Rightarrow> nat \<Rightarrow> 'g \<Rightarrow> column list" where
  "spec_noise_columns draw num_rows 0 g = []"
| "spec_noise_columns draw num_rows (Suc k) g =
     (let (noise, g') = draw g num_rows
      in noise # spec_noise_columns draw num_rows k g')"


section \<open>Example tables and an example random source\<close>

definition df0 :: dataframe where
  "df0 = \<lparr>nrows = 4,
          columns = [(''v'', [0, 1, 1, 3]), (''y'', [1, 3, 3, 7]), (''Z0'', [0, 1, 0, 1])]\<rparr>"

definition df1 :: dataframe where
  "df1 = \<lparr>nrows = 4,
          columns = [(''v'', [0, 1, 1, 3]), (''y'', [1, 3, 3, 7]), (''Z0'', [1, 2, 3, 4])]\<rparr>"

definition df0_wide :: dataframe where
  "df0_wide = \<lparr>nrows = 4,
      columns = [(''Z1'', [5, 6, 7, 8]), (''v'', [0, 1, 1, 3]), (''X0'', [9, 9, 2, 1]),
                 (''y'', [1, 3, 3, 7]), (''Z0'', [0, 1, 0, 1])]\<rparr>"


text \<open>
  A random source to run the refuters on: its noise counts up from the generator state,
  its draw of positions takes the last rows first.
\<close>

definition demo_source :: "nat random_source" where
  "demo_source =
     \<lparr>randn = (\<lambda>g n. (map (\<lambda>i. real (g + i)) [0..<n], g + n)),
      choice = (\<lambda>g n k. (take k (rev [0..<n]), Suc g))\<rparr>"

definition demo_world :: "nat world" where
  "demo_world = \<lparr>rng = 0, frames = [df0]\<rparr>"






section \<open>Facts about tables and the estimator\<close>

lemma zip_nth_upt:
  "length xs = length ys \<Longrightarrow> zip xs ys = map (\<lambda>i. (xs ! i, ys ! i)) [0..<length ys]"
  by (rule nth_equalityI) auto

lemma mask_select_rows:
  assumes "length col = length z"
  shows "mask_select col z v = map ((!) col) (filter (\<lambda>i. z ! i = v) [0..<length z])"
  unfolding mask_select_def zip_nth_upt [OF assms]
  by (simp add: filter_map comp_def)

lemma np_mean_group:
  assumes "length col = length z"
  shows "np_mean (mask_select col z v) = spec_group_mean col z v"
  by (simp add: mask_select_rows [OF assms] np_mean_def spec_group_mean_def Let_def comp_def)

lemma np_dot_rows:
  assumes "length xs = length ys"
  shows "np_dot xs ys = (\<Sum>i\<leftarrow>[0..<length ys]. xs ! i * ys ! i)"
  unfolding np_dot_def zip_nth_upt [OF assms]
  by (simp add: comp_def)

lemma wf_df_length:
  "wf_df df \<Longrightarrow> map_of (columns df) name = Some c \<Longrightarrow> length c = nrows df"
  by (auto simp: wf_df_def list_all_iff dest: map_of_SomeD)

lemma estimator_spec:
  assumes "wf_df df"
      and "map_of (columns df) ''Z0'' = Some z"
      and "map_of (columns df) ''y'' = Some y"
      and "map_of (columns df) (treatment_default treatment_name) = Some x"
  shows "instrumental_variables_estimator df treatment_name =
           Inr (CausalEstimate (spec_estimate y x z))"
proof -
  have ly: "length y = length z" and lx: "length x = length z"
    using assms by (simp_all add: wf_df_length)
  show ?thesis
    using assms(2-4)
    by (simp add: instrumental_variables_estimator_def getitem_def num_unique_def
        length_remdups_card_conv spec_estimate_def spec_wald_def spec_pearl_def
        np_mean_group [OF ly] np_mean_group [OF lx] np_dot_rows [OF ly] np_dot_rows [OF lx])
qed

lemma estimator_same_columns:
  assumes "map_of (columns d1) ''Z0'' = map_of (columns d2) ''Z0''"
      and "map_of (columns d1) ''y'' = map_of (columns d2) ''y''"
      and "map_of (columns d1) (treatment_default treatment_name)
             = map_of (columns d2) (treatment_default treatment_name)"
  shows "instrumental_variables_estimator d1 treatment_name
           = instrumental_variables_estimator d2 treatment_name"
proof -
  have "getitem d1 ''Z0'' = getitem d2 ''Z0''"
    and "getitem d1 ''y'' = getitem d2 ''y''"
    and "getitem d1 (treatment_default treatment_name)
           = getitem d2 (treatment_default treatment_name)"
    using assms by (simp_all add: getitem_def)
  then show ?thesis
    unfolding instrumental_variables_estimator_def by (simp only:)
qed




section \<open>Facts about the store and the refuters\<close>

lemma deref_rng [simp]: "deref (w\<lparr>rng := g\<rparr>) r = deref w r"
  by (simp add: deref_def)

lemma deref_append:
  "deref w r = Inr d \<Longrightarrow> deref (w\<lparr>frames := frames w @ ds\<rparr>) r = Inr d"
  by (auto simp: deref_def nth_append split: if_splits)

lemma deref_new:
  "deref (w\<lparr>frames := frames w @ [d]\<rparr>) (length (frames w)) = Inr d"
  by (simp add: deref_def)

lemma deref_prefix:
  assumes "prefix (frames w) (frames w')" and "deref w r = Inr d"
  shows "deref w' r = Inr d"
proof -
  from assms(1) obtain ds where "frames w' = frames w @ ds"
    by (auto simp: prefix_def)
  with assms(2) show ?thesis
    by (auto simp: deref_def nth_append split: if_splits)
qed

lemma df_assign_ok:
  assumes "deref w df = Inr d" and "length c = nrows d"
  shows "df_assign w df name c =
           (Inr (length (frames w)),
            w\<lparr>frames := frames w @ [d\<lparr>columns := AList.update name c (columns d)\<rparr>]\<rparr>)"
  using assms by (simp add: df_assign_def assign_def new_frame_def)

lemma df_assign_frames:
  "prefix (frames w) (frames (snd (df_assign w df name c)))"
  by (simp add: df_assign_def assign_def new_frame_def split: sum.splits)

lemma map_of_update_other:
  "k' \<noteq> k \<Longrightarrow> map_of (AList.update k v al) k' = map_of al k'"
  by (simp add: update_conv')

lemma update_fresh:
  "k \<notin> fst ` set al \<Longrightarrow> AList.update k v al = al @ [(k, v)]"
  by (induction al) auto

lemma set_update_subset:
  "set (AList.update k v al) \<subseteq> insert (k, v) (set al)"
  by (induction al) auto

lemma wf_df_update:
  assumes "wf_df d" and "length c = nrows d"
  shows "wf_df (d\<lparr>columns := AList.update name c (columns d)\<rparr>)"
proof -
  have "set (AList.update name c (columns d)) \<subseteq> insert (name, c) (set (columns d))"
    by (rule set_update_subset)
  with assms show ?thesis
    by (auto simp: wf_df_def list_all_iff distinct_update)
qed

lemma refute_estimate_random_eq:
  assumes "valid_source src" and "deref w df = Inr d"
  shows "refute_estimate_random src w df e =
           ((case instrumental_variables_estimator d None of
               Inl err \<Rightarrow> Inl err
             | Inr b \<Rightarrow> Inr (estimate_value b)),
            w\<lparr>rng := snd (randn src (rng w) (nrows d)),
               frames := frames w @
                 [d\<lparr>columns := AList.update ''w_random'' (fst (randn src (rng w) (nrows d)))
                                  (columns d)\<rparr>]\<rparr>)"
proof -
  define noise where "noise = fst (randn src (rng w) (nrows d))"
  define g' where "g' = snd (randn src (rng w) (nrows d))"
  define d' where "d' = d\<lparr>columns := AList.update ''w_random'' noise (columns d)\<rparr>"
  have len: "length noise = nrows d"
    using assms(1) by (simp add: valid_source_def noise_def)
  have d1: "deref (w\<lparr>rng := g'\<rparr>) df = Inr d"
    using assms(2) by simp
  have as: "df_assign (w\<lparr>rng := g'\<rparr>) df ''w_random'' noise =
              (Inr (length (frames w)), w\<lparr>rng := g', frames := frames w @ [d']\<rparr>)"
    using df_assign_ok [OF d1 len, of "''w_random''"] by (simp add: d'_def)
  have same: "instrumental_variables_estimator d' None = instrumental_variables_estimator d None"
    by (rule estimator_same_columns)
      (simp_all add: d'_def map_of_update_other treatment_default_def)
  have at: "estimator_at (w\<lparr>rng := g', frames := frames w @ [d']\<rparr>) (length (frames w)) None
              = instrumental_variables_estimator d None"
    by (simp add: estimator_at_def deref_def same)
  have rn: "randn src (rng w) (nrows d) = (noise, g')"
    by (simp add: noise_def g'_def)
  show ?thesis
    unfolding refute_estimate_random_def
    by (simp add: assms(2) rn as at d'_def [symmetric] split: sum.splits)
qed

lemma fadd_assoc: "fadd (fadd a b) c = fadd a (fadd b c)"
  by (cases a; cases b; cases c) simp_all

lemma fadd_zero_left: "fadd (Fin 0) a = a"
  by (cases a) simp_all

lemma py_round_of_nat: "py_round (real n) = int n"
  by (simp add: py_round_def)

lemma perm_of_distinct:
  assumes "distinct locs" and "length locs = n" and "list_all (\<lambda>i. i < n) locs"
  shows "mset locs = mset [0..<n]"
proof -
  have sub: "set locs \<subseteq> {0..<n}"
    using assms(3) by (auto simp: list_all_iff)
  have "card (set locs) = n"
    using assms(1,2) by (simp add: distinct_card)
  with sub have "set locs = {0..<n}"
    by (intro card_subset_eq) simp_all
  moreover have "mset locs = mset_set (set locs)"
    using assms(1) by (simp add: mset_set_set)
  ultimately show ?thesis by simp
qed

lemma mset_take_perm:
  assumes "mset locs = mset [0..<length v]"
  shows "mset (map ((!) v) locs) = mset v"
proof -
  have "mset (map ((!) v) locs) = image_mset ((!) v) (mset [0..<length v])"
    using assms by (simp del: mset_upt)
  also have "\<dots> = mset (map ((!) v) [0..<length v])"
    by (simp del: mset_upt)
  also have "\<dots> = mset v"
    by (simp only: map_nth)
  finally show ?thesis .
qed

lemma choice_all:
  assumes "valid_source src"
  shows "length (fst (choice src g n n)) = n"
    and "list_all (\<lambda>i. i < n) (fst (choice src g n n))"
    and "mset (fst (choice src g n n)) = mset [0..<n]"
proof -
  from assms have a: "length (fst (choice src g n n)) = n"
    and b: "distinct (fst (choice src g n n))"
    and c: "list_all (\<lambda>i. i < n) (fst (choice src g n n))"
    by (simp_all add: valid_source_def)
  show "length (fst (choice src g n n)) = n" by (rule a)
  show "list_all (\<lambda>i. i < n) (fst (choice src g n n))" by (rule c)
  show "mset (fst (choice src g n n)) = mset [0..<n]"
    by (rule perm_of_distinct [OF b a c])
qed

lemma sample_locs_all:
  "sample_locs src g n 1 = (Inr (fst (choice src g n n)), snd (choice src g n n))"
  by (simp add: sample_locs_def py_round_of_nat Let_def split_beta)

lemma series_sample_values_all:
  assumes "valid_source src"
  shows "series_sample_values src g v 1 =
           (Inr (map ((!) v) (fst (choice src g (length v) (length v)))),
            snd (choice src g (length v) (length v)))"
  using choice_all(2) [OF assms, where g = g and n = "length v"]
  by (simp add: series_sample_values_def sample_locs_all take_col_def)

lemma spec_placebo_draw_length:
  assumes "valid_source src"
      and "placebo_type = ''permute'' \<longrightarrow> length v = num_rows"
  shows "length (fst (spec_placebo_draw src placebo_type v num_rows g)) = num_rows"
  using assms choice_all(1) [OF assms(1), where g = g and n = "length v"]
  by (auto simp: spec_placebo_draw_def split_beta Let_def valid_source_def)

lemma new_treatment_eq:
  assumes "valid_source src" and "deref w df = Inr d"
      and "placebo_type = ''permute'' \<longrightarrow> map_of (columns d) ''v'' = Some v"
  shows "new_treatment src w df placebo_type num_rows =
           (Inr (fst (spec_placebo_draw src placebo_type v num_rows (rng w))),
            w\<lparr>rng := snd (spec_placebo_draw src placebo_type v num_rows (rng w))\<rparr>)"
  using assms(2,3)
  by (auto simp: new_treatment_def spec_placebo_draw_def getitem_def split_beta Let_def
      series_sample_values_all [OF assms(1)])

lemma placebo_step:
  assumes src: "valid_source src" and wf: "wf_df d"
      and z: "map_of (columns d) ''Z0'' = Some z"
      and y: "map_of (columns d) ''y'' = Some yc"
      and len: "length c = nrows d"
      and dr: "deref w df = Inr d"
  shows "df_assign w df ''placebo'' c =
           (Inr (length (frames w)),
            w\<lparr>frames := frames w @ [d\<lparr>columns := AList.update ''placebo'' c (columns d)\<rparr>]\<rparr>)"
    and "estimator_at
           (w\<lparr>frames := frames w @ [d\<lparr>columns := AList.update ''placebo'' c (columns d)\<rparr>]\<rparr>)
           (length (frames w)) (Some ''placebo'')
         = Inr (CausalEstimate (spec_estimate yc c z))"
proof -
  let ?d' = "d\<lparr>columns := AList.update ''placebo'' c (columns d)\<rparr>"
  show "df_assign w df ''placebo'' c =
          (Inr (length (frames w)), w\<lparr>frames := frames w @ [?d']\<rparr>)"
    by (rule df_assign_ok [OF dr len])
  have wf': "wf_df ?d'"
    by (rule wf_df_update [OF wf len])
  have "instrumental_variables_estimator ?d' (Some ''placebo'')
          = Inr (CausalEstimate (spec_estimate yc c z))"
    by (rule estimator_spec [OF wf'])
      (simp_all add: z y update_conv' treatment_default_def)
  then show "estimator_at (w\<lparr>frames := frames w @ [?d']\<rparr>) (length (frames w)) (Some ''placebo'')
               = Inr (CausalEstimate (spec_estimate yc c z))"
    by (simp add: estimator_at_def deref_def)
qed

lemma placebo_loop_value:
  assumes src: "valid_source src" and wf: "wf_df d"
      and z: "map_of (columns d) ''Z0'' = Some z"
      and y: "map_of (columns d) ''y'' = Some yc"
      and v: "placebo_type = ''permute'' \<longrightarrow> map_of (columns d) ''v'' = Some v"
  shows "deref w df = Inr d \<Longrightarrow>
         fst (placebo_loop src df placebo_type (nrows d) k refute w) =
           Inr (fadd refute
                  (fsum (map (\<lambda>c. spec_estimate yc c z)
                           (spec_placebo_columns src placebo_type v (nrows d) k (rng w)))))"
proof (induction k arbitrary: refute w)
  case 0
  show ?case by (cases refute) simp_all
next
  case (Suc k)
  define c where "c = fst (spec_placebo_draw src placebo_type v (nrows d) (rng w))"
  define g' where "g' = snd (spec_placebo_draw src placebo_type v (nrows d) (rng w))"
  define w1 where "w1 = w\<lparr>rng := g'\<rparr>"
  define w2 where
    "w2 = w1\<lparr>frames := frames w1 @ [d\<lparr>columns := AList.update ''placebo'' c (columns d)\<rparr>]\<rparr>"
  have vlen: "placebo_type = ''permute'' \<longrightarrow> length v = nrows d"
    using v wf by (auto simp: wf_df_length)
  have len: "length c = nrows d"
    unfolding c_def by (rule spec_placebo_draw_length [OF src vlen])
  have nt: "new_treatment src w df placebo_type (nrows d) = (Inr c, w1)"
    unfolding c_def g'_def w1_def by (rule new_treatment_eq [OF src Suc.prems v])
  have dr1: "deref w1 df = Inr d"
    using Suc.prems by (simp add: w1_def)
  have as: "df_assign w1 df ''placebo'' c = (Inr (length (frames w1)), w2)"
    unfolding w2_def by (rule placebo_step(1) [OF src wf z y len dr1])
  have est: "estimator_at w2 (length (frames w1)) (Some ''placebo'')
               = Inr (CausalEstimate (spec_estimate yc c z))"
    unfolding w2_def by (rule placebo_step(2) [OF src wf z y len dr1])
  have dr2: "deref w2 df = Inr d"
    unfolding w2_def by (rule deref_append [OF dr1])
  have rng2: "rng w2 = g'"
    by (simp add: w2_def w1_def)
  have draw: "spec_placebo_draw src placebo_type v (nrows d) (rng w) = (c, g')"
    by (simp add: c_def g'_def)
  have "fst (placebo_loop src df placebo_type (nrows d) (Suc k) refute w)
          = fst (placebo_loop src df placebo_type (nrows d) k
                   (fadd refute (spec_estimate yc c z)) w2)"
    by (simp add: nt as est)
  also have "\<dots> = Inr (fadd (fadd refute (spec_estimate yc c z))
                      (fsum (map (\<lambda>c. spec_estimate yc c z)
                               (spec_placebo_columns src placebo_type v (nrows d) k g'))))"
    using Suc.IH [OF dr2] by (simp add: rng2)
  also have "\<dots> = Inr (fadd refute
                      (fsum (map (\<lambda>c. spec_estimate yc c z)
                               (spec_placebo_columns src placebo_type v (nrows d) (Suc k) (rng w)))))"
    by (simp add: draw fadd_assoc)
  finally show ?case .
qed

lemma spec_placebo_columns_length:
  "length (spec_placebo_columns src placebo_type v num_rows k g) = k"
  by (induction k arbitrary: g) (simp_all add: split_beta)

lemma spec_placebo_columns_rows:
  assumes "valid_source src"
      and "placebo_type = ''permute'' \<longrightarrow> length v = num_rows"
  shows "c \<in> set (spec_placebo_columns src placebo_type v num_rows k g) \<Longrightarrow> length c = num_rows"
  using spec_placebo_draw_length [OF assms]
  by (induction k arbitrary: g) (auto simp: split_beta)

lemma spec_placebo_columns_permute:
  assumes "valid_source src"
  shows "c \<in> set (spec_placebo_columns src ''permute'' v num_rows k g) \<Longrightarrow> mset c = mset v"
proof (induction k arbitrary: g)
  case 0
  then show ?case by simp
next
  case (Suc k)
  have "mset (map ((!) v) (fst (choice src g (length v) (length v)))) = mset v"
    by (rule mset_take_perm [OF choice_all(3) [OF assms]])
  with Suc show ?case
    by (auto simp: split_beta spec_placebo_draw_def)
qed

lemma spec_placebo_columns_noise:
  "placebo_type \<noteq> ''permute'' \<Longrightarrow>
     spec_placebo_columns src placebo_type v num_rows k g
       = spec_noise_columns (randn src) num_rows k g"
  by (induction k arbitrary: g) (simp_all add: split_beta spec_placebo_draw_def)

lemma new_treatment_noise:
  "placebo_type \<noteq> ''permute'' \<Longrightarrow>
     new_treatment (src\<lparr>choice := ch\<rparr>) w df placebo_type num_rows
       = new_treatment src w df placebo_type num_rows"
  by (simp add: new_treatment_def)

lemma placebo_loop_noise:
  "placebo_type \<noteq> ''permute'' \<Longrightarrow>
     placebo_loop (src\<lparr>choice := ch\<rparr>) df placebo_type num_rows k refute w
       = placebo_loop src df placebo_type num_rows k refute w"
  by (induction k arbitrary: refute w)
    (simp_all add: new_treatment_noise split: sum.splits prod.splits)

lemma refute_estimate_placebo_value:
  assumes src: "valid_source src" and dr: "deref w df = Inr d" and wf: "wf_df d"
      and z: "map_of (columns d) ''Z0'' = Some z"
      and y: "map_of (columns d) ''y'' = Some yc"
      and v: "placebo_type = ''permute'' \<longrightarrow> map_of (columns d) ''v'' = Some v"
      and n: "n = (case sims of None \<Rightarrow> 100 | Some k \<Rightarrow> k)" and pos: "0 < n"
  shows "fst (refute_estimate_placebo src w df e (Some placebo_type) sims) =
           Inr (spec_mean (map (\<lambda>c. spec_estimate yc c z)
                  (spec_placebo_columns src placebo_type v (nrows d) (nat n) (rng w))))"
proof -
  let ?cols = "spec_placebo_columns src placebo_type v (nrows d) (nat n) (rng w)"
  let ?sum = "fsum (map (\<lambda>c. spec_estimate yc c z) ?cols)"
  have loop: "fst (placebo_loop src df placebo_type (nrows d) (nat n) (Fin 0) w) = Inr ?sum"
    using placebo_loop_value [OF src wf z y v dr, of "nat n" "Fin 0"]
    by (simp add: fadd_zero_left)
  have cnt: "real (length (map (\<lambda>c. spec_estimate yc c z) ?cols)) = of_int n"
    using pos by (simp add: spec_placebo_columns_length)
  have "fst (refute_estimate_placebo src w df e (Some placebo_type) sims)
          = Inr (fdiv ?sum (Fin (of_int n)))"
    using pos loop
    by (simp add: refute_estimate_placebo_def dr n [symmetric] split_beta Let_def)
  then show ?thesis
    unfolding spec_mean_def cnt .
qed

lemma new_treatment_frames:
  "frames (snd (new_treatment src w df placebo_type num_rows)) = frames w"
  by (simp add: new_treatment_def split_beta Let_def split: sum.splits)

lemma placebo_loop_frames:
  "prefix (frames w) (frames (snd (placebo_loop src df placebo_type num_rows k refute w)))"
proof (induction k arbitrary: refute w)
  case 0
  show ?case by simp
next
  case (Suc k)
  obtain res w1 where nt: "new_treatment src w df placebo_type num_rows = (res, w1)"
    by (cases "new_treatment src w df placebo_type num_rows")
  have f1: "frames w1 = frames w"
    using new_treatment_frames [of src w df placebo_type num_rows] by (simp add: nt)
  show ?case
  proof (cases res)
    case (Inl err)
    then show ?thesis by (simp add: nt f1)
  next
    case (Inr c)
    obtain res2 w2 where as: "df_assign w1 df ''placebo'' c = (res2, w2)"
      by (cases "df_assign w1 df ''placebo'' c")
    have f2: "prefix (frames w) (frames w2)"
      using df_assign_frames [of w1 df "''placebo''" c] by (simp add: as f1)
    have f3: "prefix (frames w2) (frames (snd (placebo_loop src df placebo_type num_rows k r w2)))"
      for r by (rule Suc.IH)
    show ?thesis
      using f2 prefix_order.trans [OF f2 f3]
      by (simp add: nt Inr as split: sum.splits)
  qed
qed

lemma refute_estimate_random_frames:
  "prefix (frames w) (frames (snd (refute_estimate_random src w df e)))"
  using df_assign_frames [of "w\<lparr>rng := g\<rparr>" df "''w_random''" c for g c]
  by (simp add: refute_estimate_random_def split_beta Let_def split: sum.splits)

lemma refute_estimate_placebo_frames:
  "prefix (frames w) (frames (snd (refute_estimate_placebo src w df e placebo_type sims)))"
  using placebo_loop_frames [of w src df]
  by (simp add: refute_estimate_placebo_def split_beta Let_def split: sum.splits)

lemma df_sample_frames:
  "prefix (frames w) (frames (snd (df_sample src w df fraction)))"
  by (simp add: df_sample_def new_frame_def split_beta Let_def split: sum.splits)

lemma refute_estimate_subset_frames:
  "prefix (frames w) (frames (snd (refute_estimate_subset src w df e subset_fraction)))"
  using df_sample_frames [of w src df]
  by (simp add: refute_estimate_subset_def split_beta Let_def split: sum.splits)


lemma py_round_le:
  assumes "0 \<le> x" and "x \<le> real n"
  shows "nat (py_round x) \<le> n"
proof -
  have fl: "\<lfloor>x\<rfloor> \<le> int n"
    using assms(2) by (simp add: floor_le_iff)
  show ?thesis
  proof (cases "\<lfloor>x\<rfloor> = int n")
    case True
    then have "x - of_int \<lfloor>x\<rfloor> \<le> 0"
      using assms(2) by simp
    then have "py_round x = \<lfloor>x\<rfloor>"
      by (simp add: py_round_def Let_def)
    with True show ?thesis by simp
  next
    case False
    with fl have "\<lfloor>x\<rfloor> + 1 \<le> int n" by simp
    moreover have "py_round x \<le> \<lfloor>x\<rfloor> + 1"
      by (simp add: py_round_def Let_def)
    ultimately show ?thesis by simp
  qed
qed

lemma sample_size_le:
  assumes "0 \<le> fraction" and "fraction \<le> 1"
  shows "nat (py_round (fraction * real n)) \<le> n"
proof (rule py_round_le)
  show "0 \<le> fraction * real n" using assms(1) by simp
  have "fraction * real n \<le> 1 * real n"
    using assms(2) by (intro mult_right_mono) simp_all
  then show "fraction * real n \<le> real n" by simp
qed




lemma sum_list_mset:
  fixes xs ys :: "real list"
  assumes "mset xs = mset ys"
  shows "sum_list xs = sum_list ys"
proof -
  have "sum_mset (mset xs) = sum_mset (mset ys)"
    by (simp only: assms)
  then show ?thesis
    by (simp only: sum_mset_sum_list)
qed

lemma np_mean_mset:
  assumes "mset xs = mset ys"
  shows "np_mean xs = np_mean ys"
proof -
  have s: "sum_list xs = sum_list ys"
    by (rule sum_list_mset [OF assms])
  have l: "length xs = length ys"
    using assms by (rule mset_eq_length)
  show ?thesis
    using l by (auto simp: np_mean_def s)
qed




lemma valid_demo_source: "valid_source demo_source"
  by (auto simp: valid_source_def demo_source_def list_all_iff dest: in_set_takeD)

lemma valid_source_no_choice:
  assumes "\<forall>g k. length (fst (randn src g k)) = k"
  shows "valid_source (src\<lparr>choice := (\<lambda>g n k. ([0..<k], g))\<rparr>)"
  using assms by (auto simp: valid_source_def list_all_iff)

lemma refute_estimate_placebo_noise:
  assumes "mode \<noteq> Some ''permute''"
  shows "refute_estimate_placebo (src\<lparr>choice := ch\<rparr>) w df e mode sims
           = refute_estimate_placebo src w df e mode sims"
proof -
  define t where "t = (case mode of None \<Rightarrow> ''permte'' | Some t \<Rightarrow> t)"
  have t: "t \<noteq> ''permute''"
    using assms by (cases mode) (simp_all add: t_def)
  show ?thesis
    unfolding refute_estimate_placebo_def t_def [symmetric] Let_def
    by (simp only: placebo_loop_noise [OF t])
qed

lemma refute_estimate_placebo_default:
  "refute_estimate_placebo src w df e None sims
     = refute_estimate_placebo src w df e (Some ''permte'') sims"
  by (simp add: refute_estimate_placebo_def)

section \<open>Facts about the examples\<close>

lemma estimator_df0:
  "instrumental_variables_estimator df0 None = Inr (CausalEstimate (Fin 2))"
  by (simp add: df0_def instrumental_variables_estimator_def getitem_def num_unique_def
      treatment_default_def mask_select_def np_mean_def fsub_def)

lemma deref_demo: "deref demo_world 0 = Inr df0"
  by (simp add: deref_def demo_world_def)

lemma wf_df0: "wf_df df0"
  by (simp add: df0_def wf_df_def)

lemma columns_df0:
  "map_of (columns df0) ''Z0'' = Some [0, 1, 0, 1]"
  "map_of (columns df0) ''y'' = Some [1, 3, 3, 7]"
  "map_of (columns df0) ''v'' = Some [0, 1, 1, 3]"
  by (simp_all add: df0_def)

lemma demo_permute_columns:
  "spec_placebo_columns demo_source ''permute'' [0, 1, 1, 3] (nrows df0) (nat 2) (rng demo_world)
     = [[3, 1, 1, 0], [3, 1, 1, 0]]"
  by (simp add: numeral_2_eq_2 spec_placebo_draw_def demo_source_def upt_conv_Cons)

lemma demo_noise_columns:
  "spec_noise_columns (randn demo_source) (nrows df0) (nat 2) (rng demo_world)
     = [[0, 1, 2, 3], [4, 5, 6, 7]]"
  by (simp add: numeral_2_eq_2 demo_source_def demo_world_def df0_def upt_conv_Cons)

lemma demo_estimates:
  "spec_estimate [1, 3, 3, 7] [3, 1, 1, 0] [0, 1, 0, 1] = Fin (- 2)"
  "spec_estimate [1, 3, 3, 7] [0, 1, 2, 3] [0, 1, 0, 1] = Fin 3"
  "spec_estimate [1, 3, 3, 7] [4, 5, 6, 7] [0, 1, 0, 1] = Fin 3"
  by (simp_all add: spec_estimate_def spec_wald_def spec_group_mean_def fsub_def card_insert_if)

section \<open>Facts about float64 arithmetic\<close>




lemma estimator_fl_exact:
  "instrumental_variables_estimator_fl exact_arith df treatment_name
     = instrumental_variables_estimator df treatment_name"
proof -
  have sub: "fsub_r Fin a b = fsub a b" for a b
    by (cases a; cases b) (simp_all add: fsub_def)
  have dv: "fdiv_r Fin a b = fdiv a b" for a b
    by (cases a; cases b) simp_all
  have mn: "np_mean_fl exact_arith xs = np_mean xs" for xs
    by (simp add: np_mean_fl_def np_mean_def exact_arith_def)
  have r: "fl_round exact_arith = Fin" and d: "fl_dot exact_arith xs ys = Fin (np_dot xs ys)"
    for xs ys
    by (simp_all add: exact_arith_def)
  show ?thesis
    unfolding instrumental_variables_estimator_fl_def instrumental_variables_estimator_def
      r sub dv mn d Let_def ..
qed














lemma sample_locs_fl_exact:
  "sample_locs_fl exact_arith src g n fraction = sample_locs src g n fraction"
proof (cases "fraction < 0 \<or> 1 < fraction")
  case True
  then show ?thesis
    by (simp add: sample_locs_fl_def sample_locs_def)
next
  case False
  then have "nat (py_round (fraction * real n)) \<le> n"
    by (intro sample_size_le) simp_all
  with False show ?thesis
    by (simp add: sample_locs_fl_def sample_locs_def exact_arith_def Let_def)
qed

lemma refute_estimate_subset_fl_exact:
  "refute_estimate_subset_fl exact_arith src w df e (Some fraction)
     = refute_estimate_subset src w df e (Some fraction)"
proof -
  have a: "estimator_at_fl exact_arith = estimator_at"
    unfolding estimator_at_fl_def estimator_at_def estimator_fl_exact ..
  have d: "df_sample_fl exact_arith src w df f = df_sample src w df f" for f
    unfolding df_sample_fl_def df_sample_def sample_locs_fl_exact ..
  show ?thesis
    unfolding refute_estimate_subset_fl_def refute_estimate_subset_def a d
    by simp
qed

section \<open>The claims\<close>

text \<open>
  C1. The estimator dispatches on the number of distinct values of the instrument column
  \<open>Z0\<close>. With at most two distinct values it returns the Wald estimator: the mean of the
  outcome where the instrument is 1 minus its mean where the instrument is 0, divided by
  the same difference for the treatment. Otherwise it returns the Pearl ratio: the dot
  product of outcome and instrument divided by the dot product of treatment and
  instrument. The result is a \<open>CausalEstimate\<close> holding that one number.
\<close>

theorem estimator_dispatch:
  assumes "wf_df df"
      and "map_of (columns df) ''Z0'' = Some z"
      and "map_of (columns df) ''y'' = Some y"
      and "map_of (columns df) (treatment_default treatment_name) = Some x"
  shows "instrumental_variables_estimator df treatment_name =
           Inr (CausalEstimate
                  (if card (set z) \<le> 2
                   then fdiv (fsub (spec_group_mean y z 1) (spec_group_mean y z 0))
                             (fsub (spec_group_mean x z 1) (spec_group_mean x z 0))
                   else fdiv (Fin (\<Sum>i\<leftarrow>[0..<length z]. y ! i * z ! i))
                             (Fin (\<Sum>i\<leftarrow>[0..<length z]. x ! i * z ! i))))"
  using estimator_spec [OF assms]
  by (simp add: spec_estimate_def spec_wald_def spec_pearl_def)

theorem estimator_dispatch_witness:
  "instrumental_variables_estimator df0 None = Inr (CausalEstimate (Fin 2))
   \<and> instrumental_variables_estimator df1 (Some ''v'') = Inr (CausalEstimate (Fin (44 / 17)))"
  using estimator_dispatch [of df0 "[0, 1, 0, 1]" "[1, 3, 3, 7]" None "[0, 1, 1, 3]"]
    estimator_dispatch [of df1 "[1, 2, 3, 4]" "[1, 3, 3, 7]" "Some ''v''" "[0, 1, 1, 3]"]
  by (simp add: df0_def df1_def wf_df_def treatment_default_def spec_group_mean_def fsub_def
      card_insert_if)






text \<open>
  C4. Placebo-treatment refutation runs the given number of simulations, 100 when none
  is given. Each simulation builds a placebo column, a permutation of the cells of the
  treatment column \<open>v\<close> in the mode \<open>permute\<close> and a draw of noise in any other mode,
  runs the estimator on the table with that column as the treatment, and the result is
  the mean of the estimates of all simulations. Here \<open>cols\<close> are the placebo columns of
  the simulations in order and \<open>n\<close> is their number, a positive one.
\<close>

theorem placebo_refutation_mean:
  assumes "valid_source src" and "deref w df = Inr d" and "wf_df d"
      and "map_of (columns d) ''Z0'' = Some z"
      and "map_of (columns d) ''y'' = Some yc"
      and "map_of (columns d) ''v'' = Some v"
      and "n = (case sims of None \<Rightarrow> 100 | Some k \<Rightarrow> k)" and "0 < n"
      and "cols = spec_placebo_columns src placebo_type v (nrows d) (nat n) (rng w)"
  shows "fst (refute_estimate_placebo src w df e (Some placebo_type) sims)
           = Inr (spec_mean (map (\<lambda>c. spec_estimate yc c z) cols))
       \<and> length cols = nat n
       \<and> (\<forall>c\<in>set cols.
            instrumental_variables_estimator
              (d\<lparr>columns := AList.update ''placebo'' c (columns d)\<rparr>) (Some ''placebo'')
            = Inr (CausalEstimate (spec_estimate yc c z)))
       \<and> (placebo_type = ''permute'' \<longrightarrow> (\<forall>c\<in>set cols. mset c = mset v))
       \<and> (placebo_type \<noteq> ''permute'' \<longrightarrow>
            cols = spec_noise_columns (randn src) (nrows d) (nat n) (rng w))"
proof -
  have vlen: "length v = nrows d"
    using assms(3,6) by (simp add: wf_df_length)
  have a: "fst (refute_estimate_placebo src w df e (Some placebo_type) sims)
             = Inr (spec_mean (map (\<lambda>c. spec_estimate yc c z) cols))"
    unfolding assms(9)
    by (rule refute_estimate_placebo_value [OF assms(1,2,3,4,5) _ assms(7,8)])
      (simp add: assms(6))
  have b: "length cols = nat n"
    by (simp add: assms(9) spec_placebo_columns_length)
  have c: "instrumental_variables_estimator
             (d\<lparr>columns := AList.update ''placebo'' c (columns d)\<rparr>) (Some ''placebo'')
           = Inr (CausalEstimate (spec_estimate yc c z))" if "c \<in> set cols" for c
  proof -
    have len: "length c = nrows d"
      using that unfolding assms(9)
      by (rule spec_placebo_columns_rows [OF assms(1), rotated]) (simp add: vlen)
    show ?thesis
      by (rule estimator_spec [OF wf_df_update [OF assms(3) len]])
        (simp_all add: assms(4,5) update_conv' treatment_default_def)
  qed
  have p: "mset c = mset v" if "placebo_type = ''permute''" and "c \<in> set cols" for c
    using that spec_placebo_columns_permute [OF assms(1), of c v "nrows d" "nat n" "rng w"]
    by (simp add: assms(9))
  have q: "cols = spec_noise_columns (randn src) (nrows d) (nat n) (rng w)"
    if "placebo_type \<noteq> ''permute''"
    unfolding assms(9) by (rule spec_placebo_columns_noise [OF that])
  from a b c p q show ?thesis by blast
qed

theorem placebo_refutation_mean_witness:
  "fst (refute_estimate_placebo demo_source demo_world 0 (CausalEstimate NaN)
          (Some ''permute'') (Some 2)) = Inr (Fin (- 2))"
proof -
  have n: "(2 :: int) = (case Some 2 of None \<Rightarrow> 100 | Some k \<Rightarrow> k)" and pos: "(0 :: int) < 2"
    by simp_all
  have "fst (refute_estimate_placebo demo_source demo_world 0 (CausalEstimate NaN)
               (Some ''permute'') (Some 2))
          = Inr (spec_mean (map (\<lambda>c. spec_estimate [1, 3, 3, 7] c [0, 1, 0, 1])
                   (spec_placebo_columns demo_source ''permute'' [0, 1, 1, 3] (nrows df0)
                      (nat 2) (rng demo_world))))"
    using placebo_refutation_mean [OF valid_demo_source deref_demo wf_df0 columns_df0 n pos refl,
        where placebo_type = "''permute''" and e = "CausalEstimate NaN"]
    by blast
  then show ?thesis
    by (simp only: demo_permute_columns) (simp add: demo_estimates spec_mean_def)
qed

text \<open>
  C5. With every mode that is not the string \<open>permute\<close>, the default mode of the
  function among them, placebo-treatment refutation takes the noise branch and fails on
  nothing: its result is the mean of the estimates on the noise columns, it is the same
  whatever the draw of positions that the permutation branch would use, and the column
  \<open>v\<close> need not even exist.
\<close>

theorem placebo_mode_fallthrough:
  assumes "mode \<noteq> Some ''permute''"
      and "\<forall>g k. length (fst (randn src g k)) = k"
      and "deref w df = Inr d" and "wf_df d"
      and "map_of (columns d) ''Z0'' = Some z"
      and "map_of (columns d) ''y'' = Some yc"
      and "n = (case sims of None \<Rightarrow> 100 | Some k \<Rightarrow> k)" and "0 < n"
  shows "fst (refute_estimate_placebo src w df e mode sims)
           = Inr (spec_mean (map (\<lambda>c. spec_estimate yc c z)
                    (spec_noise_columns (randn src) (nrows d) (nat n) (rng w))))
       \<and> refute_estimate_placebo (src\<lparr>choice := ch\<rparr>) w df e mode sims
           = refute_estimate_placebo src w df e mode sims"
proof -
  define t where "t = (case mode of None \<Rightarrow> ''permte'' | Some t \<Rightarrow> t)"
  define src' where "src' = src\<lparr>choice := (\<lambda>g n k. ([0..<k], g))\<rparr>"
  have t: "t \<noteq> ''permute''"
    using assms(1) by (cases mode) (simp_all add: t_def)
  have m: "refute_estimate_placebo s w df e mode sims
             = refute_estimate_placebo s w df e (Some t) sims" for s :: "'a random_source"
    by (cases mode) (simp_all add: t_def refute_estimate_placebo_def)
  have v': "valid_source src'"
    unfolding src'_def by (rule valid_source_no_choice [OF assms(2)])
  have "fst (refute_estimate_placebo src' w df e (Some t) sims)
          = Inr (spec_mean (map (\<lambda>c. spec_estimate yc c z)
                   (spec_placebo_columns src' t [] (nrows d) (nat n) (rng w))))"
    by (rule refute_estimate_placebo_value [OF v' assms(3,4,5,6) _ assms(7,8)]) (simp add: t)
  moreover have "spec_placebo_columns src' t [] (nrows d) (nat n) (rng w)
                   = spec_noise_columns (randn src) (nrows d) (nat n) (rng w)"
    by (simp add: spec_placebo_columns_noise [OF t] src'_def)
  moreover have "refute_estimate_placebo src' w df e (Some t) sims
                   = refute_estimate_placebo src w df e mode sims"
    unfolding src'_def m [of src]
    by (rule refute_estimate_placebo_noise) (simp add: t)
  ultimately have "fst (refute_estimate_placebo src w df e mode sims)
          = Inr (spec_mean (map (\<lambda>c. spec_estimate yc c z)
                   (spec_noise_columns (randn src) (nrows d) (nat n) (rng w))))"
    by simp
  then show ?thesis
    by (simp add: refute_estimate_placebo_noise [OF assms(1)])
qed

theorem placebo_mode_fallthrough_witness:
  "fst (refute_estimate_placebo demo_source demo_world 0 (CausalEstimate NaN) None (Some 2))
     = Inr (Fin 3)"
proof -
  have n: "(2 :: int) = (case Some 2 of None \<Rightarrow> 100 | Some k \<Rightarrow> k)" and pos: "(0 :: int) < 2"
    by simp_all
  have mode: "(None :: string option) \<noteq> Some ''permute''"
    by simp
  have len: "\<forall>g k. length (fst (randn demo_source g k)) = k"
    by (simp add: demo_source_def)
  have "fst (refute_estimate_placebo demo_source demo_world 0 (CausalEstimate NaN) None (Some 2))
          = Inr (spec_mean (map (\<lambda>c. spec_estimate [1, 3, 3, 7] c [0, 1, 0, 1])
                   (spec_noise_columns (randn demo_source) (nrows df0) (nat 2)
                      (rng demo_world))))"
    using placebo_mode_fallthrough [OF mode len deref_demo wf_df0 columns_df0(1,2) n pos,
        where e = "CausalEstimate NaN" and ch = "choice demo_source"]
    by blast
  then show ?thesis
    by (simp only: demo_noise_columns) (simp add: demo_estimates spec_mean_def)
qed

text \<open>
  C6. No refuter changes the dataset it is given or any other table that exists: after
  each of the three calls the variable \<open>df\<close> still holds the same table \<open>d\<close>, with
  the same rows and columns, and the tables that existed before are all there unchanged;
  what a refuter derives is a new table. The baseline estimate is a value of the
  immutable type \<open>CausalEstimate\<close>.
\<close>

theorem refuters_leave_dataset:
  assumes "deref w df = Inr d"
  shows "deref (snd (refute_estimate_random src w df e)) df = Inr d
       \<and> deref (snd (refute_estimate_placebo src w df e placebo_type sims)) df = Inr d
       \<and> deref (snd (refute_estimate_subset src w df e subset_fraction)) df = Inr d
       \<and> prefix (frames w) (frames (snd (refute_estimate_random src w df e)))
       \<and> prefix (frames w) (frames (snd (refute_estimate_placebo src w df e placebo_type sims)))
       \<and> prefix (frames w) (frames (snd (refute_estimate_subset src w df e subset_fraction)))"
proof -
  note r = refute_estimate_random_frames [of w src df e]
  note p = refute_estimate_placebo_frames [of w src df e placebo_type sims]
  note s = refute_estimate_subset_frames [of w src df e subset_fraction]
  show ?thesis
    using r p s deref_prefix [OF r assms] deref_prefix [OF p assms] deref_prefix [OF s assms]
    by simp
qed

theorem refuters_leave_dataset_witness:
  "deref (snd (refute_estimate_random demo_source demo_world 0 (CausalEstimate NaN))) 0 = Inr df0
   \<and> deref (snd (refute_estimate_placebo demo_source demo_world 0 (CausalEstimate NaN)
                    (Some ''permute'') (Some 3))) 0 = Inr df0
   \<and> deref (snd (refute_estimate_subset demo_source demo_world 0 (CausalEstimate NaN) None)) 0
       = Inr df0"
  using refuters_leave_dataset [OF deref_demo, where src = demo_source
      and e = "CausalEstimate NaN" and placebo_type = "Some ''permute''" and sims = "Some 3"
      and subset_fraction = None]
  by simp

text \<open>
  C7. Random-common-cause refutation makes one new table, the dataset with the noise
  column \<open>w_random\<close> (appended as the last column when the dataset has no column of that
  name), in which every other column is as in the dataset; it runs the estimator on it,
  and the result is the baseline estimate of the dataset, whatever the noise is.
\<close>

theorem random_common_cause_equals_baseline:
  assumes "valid_source src" and "deref w df = Inr d"
      and "noise = fst (randn src (rng w) (nrows d))"
      and "new_data = d\<lparr>columns := AList.update ''w_random'' noise (columns d)\<rparr>"
  shows "fst (refute_estimate_random src w df e)
           = (case instrumental_variables_estimator d None of
                Inl err \<Rightarrow> Inl err
              | Inr b \<Rightarrow> Inr (estimate_value b))
       \<and> frames (snd (refute_estimate_random src w df e)) = frames w @ [new_data]
       \<and> (''w_random'' \<notin> fst ` set (columns d) \<longrightarrow>
            columns new_data = columns d @ [(''w_random'', noise)])
       \<and> (\<forall>name. name \<noteq> ''w_random'' \<longrightarrow>
            map_of (columns new_data) name = map_of (columns d) name)
       \<and> (\<forall>c. instrumental_variables_estimator
                  (d\<lparr>columns := AList.update ''w_random'' c (columns d)\<rparr>) None
                = instrumental_variables_estimator d None)"
proof -
  have same: "instrumental_variables_estimator
                (d\<lparr>columns := AList.update ''w_random'' c (columns d)\<rparr>) None
              = instrumental_variables_estimator d None" for c
    by (rule estimator_same_columns)
      (simp_all add: map_of_update_other treatment_default_def)
  show ?thesis
    unfolding refute_estimate_random_eq [OF assms(1,2)]
    by (simp add: assms(3,4) update_fresh map_of_update_other same)
qed

theorem random_common_cause_equals_baseline_witness:
  "fst (refute_estimate_random demo_source demo_world 0 (CausalEstimate NaN)) = Inr (Fin 2)"
  using random_common_cause_equals_baseline
          [OF valid_demo_source deref_demo refl refl, where e = "CausalEstimate NaN"]
  by (simp add: estimator_df0)




text \<open>
  C9. The estimate depends only on the columns \<open>y\<close>, \<open>Z0\<close> and the treatment column:
  \<open>Z0\<close> is the instrument whatever other instruments the table holds, and two tables
  that agree on these three columns get the same result, whatever their other columns.
\<close>

theorem estimator_reads_three_columns:
  assumes "map_of (columns d1) ''Z0'' = map_of (columns d2) ''Z0''"
      and "map_of (columns d1) ''y'' = map_of (columns d2) ''y''"
      and "map_of (columns d1) (treatment_default treatment_name)
             = map_of (columns d2) (treatment_default treatment_name)"
  shows "instrumental_variables_estimator d1 treatment_name
           = instrumental_variables_estimator d2 treatment_name"
  by (rule estimator_same_columns [OF assms])

theorem estimator_reads_three_columns_witness:
  "instrumental_variables_estimator df0 None = instrumental_variables_estimator df0_wide None"
  using estimator_reads_three_columns [of df0 df0_wide None]
  by (simp add: df0_def df0_wide_def treatment_default_def)

text \<open>
  C10. Each of the three refuters takes the baseline estimate and never reads it: with
  the same random source, state and table, two baseline estimates give the same result.
\<close>

theorem refuters_ignore_baseline:
  "refute_estimate_random src w df e1 = refute_estimate_random src w df e2
   \<and> refute_estimate_placebo src w df e1 placebo_type sims
       = refute_estimate_placebo src w df e2 placebo_type sims
   \<and> refute_estimate_subset src w df e1 subset_fraction
       = refute_estimate_subset src w df e2 subset_fraction"
  by (simp add: refute_estimate_random_def refute_estimate_placebo_def
      refute_estimate_subset_def)

end
